theory Spec2Isabelle
  imports Main "HOL-Library.Word"
begin

section \<open>Python strings\<close>

text \<open>
  A Python \<open>str\<close> is a sequence of Unicode code points; \<open>len\<close>, slicing, \<open>strip\<close>
  and the \<open>re\<close> module all count code points. A string is therefore a list of code points,
  each a natural number. The literals of the source are ASCII and are written through \<open>u\<close>.
\<close>

type_synonym pystr = "nat list"

definition u :: "string \<Rightarrow> pystr" where
  "u s = map of_char s"

text \<open>
  \<open>Py_UNICODE_ISSPACE\<close> is the predicate behind both \<open>str.strip()\<close> (without argument)
  and the class \<open>\s\<close> of a \<open>str\<close> pattern in \<open>re\<close>: the ASCII table
  (\<open>0x09\<close>-\<open>0x0D\<close>, \<open>0x1C\<close>-\<open>0x20\<close>) and, beyond ASCII, the code points of
  category \<open>Zs\<close> or of bidirectional class \<open>WS\<close>, \<open>B\<close> or \<open>S\<close>.
\<close>

definition Py_UNICODE_ISSPACE :: "nat \<Rightarrow> bool" where
  "Py_UNICODE_ISSPACE c \<longleftrightarrow>
     (0x09 \<le> c \<and> c \<le> 0x0D) \<or> (0x1C \<le> c \<and> c \<le> 0x20) \<or> c = 0x85 \<or> c = 0xA0 \<or>
     c = 0x1680 \<or> (0x2000 \<le> c \<and> c \<le> 0x200A) \<or> c = 0x2028 \<or> c = 0x2029 \<or>
     c = 0x202F \<or> c = 0x205F \<or> c = 0x3000"

text \<open>\<open>s.strip()\<close>: the leading and the trailing run of whitespace are dropped.\<close>

definition strip :: "pystr \<Rightarrow> pystr" where
  "strip s = rev (dropWhile Py_UNICODE_ISSPACE (rev (dropWhile Py_UNICODE_ISSPACE s)))"

text \<open>
  \<open>s.upper()\<close> maps every code point on its own and concatenates the results (the full
  case mapping may give several code points, as for U+00DF). On ASCII it is the fixed
  mapping of \<open>a\<close>-\<open>z\<close> to \<open>A\<close>-\<open>Z\<close>; beyond ASCII it reads the Unicode character
  database of the interpreter, which is not part of this program and is the parameter
  \<open>ucd\<close> here.
\<close>

definition ascii_upper :: "nat \<Rightarrow> nat" where
  "ascii_upper c = (if 0x61 \<le> c \<and> c \<le> 0x7A then c - 0x20 else c)"

definition toupper_full :: "(nat \<Rightarrow> pystr) \<Rightarrow> nat \<Rightarrow> pystr" where
  "toupper_full ucd c = (if c < 128 then [ascii_upper c] else ucd c)"

definition upper :: "(nat \<Rightarrow> pystr) \<Rightarrow> pystr \<Rightarrow> pystr" where
  "upper ucd s = concat (map (toupper_full ucd) s)"

section \<open>Regular-expression substitution on a character class\<close>

text \<open>
  The only pattern of the program is the class \<open>[\s-]\<close>: the category \<open>\s\<close> and the
  literal hyphen (a \<open>-\<close> that ends a class is literal). A class matches exactly one
  code point, so \<open>re.sub\<close> scans the string from the left, writes the replacement for
  every code point of the class and copies every other one.
\<close>

datatype class_item = CATEGORY_SPACE | LITERAL nat

fun item_matches :: "class_item \<Rightarrow> nat \<Rightarrow> bool" where
  "item_matches CATEGORY_SPACE c = Py_UNICODE_ISSPACE c"
| "item_matches (LITERAL l) c = (c = l)"

definition class_matches :: "class_item list \<Rightarrow> nat \<Rightarrow> bool" where
  "class_matches items c = list_ex (\<lambda>i. item_matches i c) items"

fun re_sub :: "class_item list \<Rightarrow> pystr \<Rightarrow> pystr \<Rightarrow> pystr" where
  "re_sub items repl [] = []"
| "re_sub items repl (c # cs) =
     (if class_matches items c then repl @ re_sub items repl cs
      else c # re_sub items repl cs)"

section \<open>The plate normalizer\<close>

definition HYPHEN :: nat where
  "HYPHEN = 0x2D"

definition normalize_plate :: "(nat \<Rightarrow> pystr) \<Rightarrow> pystr \<Rightarrow> pystr" where
  "normalize_plate ucd plate =
     upper ucd (re_sub [CATEGORY_SPACE, LITERAL HYPHEN] [] plate)"

text \<open>
  The normalizer in the words of the specification: a code point is removed when it is
  whitespace or the hyphen, every other one is kept, and what is kept is upper-cased.
\<close>

definition removed_by_normalizer :: "nat \<Rightarrow> bool" where
  "removed_by_normalizer c \<longleftrightarrow> Py_UNICODE_ISSPACE c \<or> c = HYPHEN"

definition spec_normalize :: "(nat \<Rightarrow> pystr) \<Rightarrow> pystr \<Rightarrow> pystr" where
  "spec_normalize ucd s = upper ucd (filter (\<lambda>c. \<not> removed_by_normalizer c) s)"

text \<open>
  What idempotence needs of the case table of the interpreter: upper-casing a code point
  that the normalizer keeps gives code points that the normalizer keeps, and upper-casing
  those again changes nothing.
\<close>

definition case_table_stable :: "(nat \<Rightarrow> pystr) \<Rightarrow> bool" where
  "case_table_stable ucd \<longleftrightarrow>
     (\<forall>c. 128 \<le> c \<and> \<not> removed_by_normalizer c \<longrightarrow>
        (\<forall>d \<in> set (ucd c). \<not> removed_by_normalizer d) \<and> upper ucd (ucd c) = ucd c)"

section \<open>JSON values and Python truthiness\<close>

text \<open>
  What \<open>response.json()\<close> can return: \<open>None\<close>, a bool, an int (unbounded), a float
  (kept as the 64 bits of its IEEE-754 encoding), a str, a list or a dict. A dict is an
  association list in insertion order; its keys are distinct in a value that Python built.
  \<open>JNull\<close> is Python's \<open>None\<close>, which is also what \<open>call_dvla\<close> returns for "no record".
\<close>

datatype json =
    JNull
  | JBool bool
  | JInt int
  | JFloat "64 word"
  | JStr pystr
  | JArray "json list"
  | JObject "(pystr \<times> json) list"

text \<open>The truth value Python gives a value in \<open>if v:\<close>.\<close>

fun truthy :: "json \<Rightarrow> bool" where
  "truthy JNull = False"
| "truthy (JBool b) = b"
| "truthy (JInt n) = (n \<noteq> 0)"
| "truthy (JFloat w) = (w \<noteq> 0 \<and> w \<noteq> 0x8000000000000000)"
| "truthy (JStr s) = (s \<noteq> [])"
| "truthy (JArray xs) = (xs \<noteq> [])"
| "truthy (JObject kvs) = (kvs \<noteq> [])"

section \<open>Errors\<close>

text \<open>
  Every exception the request path can raise is a value. \<open>HTTPException\<close> carries its
  status code and its detail. The other constructors are the exceptions that leave the
  handler unhandled: the failed \<open>assert\<close>, a transport failure of the HTTP client, a body
  that is not JSON, \<open>.get\<close> on a value that is not a dict, and a field that the response
  model rejects.
\<close>

datatype error =
    HTTPException int pystr
  | AssertionError
  | TransportError
  | JSONDecodeError
  | AttributeError
  | ValidationError

text \<open>\<open>vehicle.get(key)\<close>: the value under the key, \<open>None\<close> when the key is missing.\<close>

fun dict_get :: "json \<Rightarrow> pystr \<Rightarrow> error + json" where
  "dict_get (JObject kvs) k = Inr (case map_of kvs k of None \<Rightarrow> JNull | Some v \<Rightarrow> v)"
| "dict_get _ k = Inl AttributeError"

section \<open>The response model\<close>

record LookupResponse =
  make' :: "pystr option"
  model :: "pystr option"
  colour :: "pystr option"
  year_of_manufacture :: "int option"
  fuel_type :: "pystr option"

text \<open>
  The field \<open>make\<close> is written \<open>make'\<close>: the record package keeps \<open>make\<close> for itself.
  The fields of \<open>LookupResponse\<close> are \<open>Optional[str]\<close> and \<open>Optional[int]\<close>, validated
  when the object is built. \<open>None\<close> and a value of the declared type are taken as they
  are. What the validation library does with a value of another type (coerce it or
  reject it) is not code of this program: it is the parameter \<open>coerce\<close>, which gives
  \<open>None\<close> for a value it rejects.
\<close>

definition validate_optional_str :: "(json \<Rightarrow> pystr option) \<Rightarrow> json \<Rightarrow> pystr option option" where
  "validate_optional_str coerce v =
     (case v of JNull \<Rightarrow> Some None | JStr s \<Rightarrow> Some (Some s) | _ \<Rightarrow> map_option Some (coerce v))"

definition validate_optional_int :: "(json \<Rightarrow> int option) \<Rightarrow> json \<Rightarrow> int option option" where
  "validate_optional_int coerce v =
     (case v of JNull \<Rightarrow> Some None | JInt n \<Rightarrow> Some (Some n) | _ \<Rightarrow> map_option Some (coerce v))"

definition new_LookupResponse ::
  "(json \<Rightarrow> pystr option) \<Rightarrow> (json \<Rightarrow> int option) \<Rightarrow>
   json \<Rightarrow> json \<Rightarrow> json \<Rightarrow> json \<Rightarrow> json \<Rightarrow> error + LookupResponse" where
  "new_LookupResponse cs ci mk md co yr fu =
     (case (validate_optional_str cs mk, validate_optional_str cs md, validate_optional_str cs co,
            validate_optional_int ci yr, validate_optional_str cs fu) of
        (Some a, Some b, Some c, Some d, Some e) \<Rightarrow>
          Inr \<lparr>make' = a, model = b, colour = c, year_of_manufacture = d, fuel_type = e\<rparr>
      | _ \<Rightarrow> Inl ValidationError)"

section \<open>The upstream client\<close>

record http_request =
  url :: pystr
  headers :: "(pystr \<times> pystr) list"
  json_payload :: json

text \<open>
  Of the upstream response the program reads \<open>status_code\<close>, \<open>text\<close> and \<open>json()\<close>,
  which raises when the body is not JSON.
\<close>

record http_response =
  status_code :: int
  resp_text :: pystr
  resp_json :: "error + json"

text \<open>
  The module-level state and the libraries the request path reads: the credential
  (\<open>os.getenv\<close> gives \<open>None\<close> when the variable is unset), the shared client \<open>_http\<close>
  (\<open>None\<close> outside the lifespan of the application; a client is what its \<open>post\<close> answers
  to a request, a response or a raised transport error), the case table of the
  interpreter beyond ASCII, and the coercions of the validation library.
\<close>

record env =
  DVLA_API_KEY :: "pystr option"
  http_client :: "(http_request \<Rightarrow> error + http_response) option"
  case_table :: "nat \<Rightarrow> pystr"
  coerce_str :: "json \<Rightarrow> pystr option"
  coerce_int :: "json \<Rightarrow> int option"

definition DVLA_URL :: pystr where
  "DVLA_URL = u ''https://driver-vehicle-licensing.api.gov.uk/vehicle-enquiry/v1/vehicles''"

text \<open>The request \<open>call_dvla\<close> posts for a plate, with the credential in its header.\<close>

definition dvla_request :: "(nat \<Rightarrow> pystr) \<Rightarrow> pystr \<Rightarrow> pystr \<Rightarrow> http_request" where
  "dvla_request table key plate =
     \<lparr>url = DVLA_URL,
      headers = [(u ''x-api-key'', key), (u ''Content-Type'', u ''application/json'')],
      json_payload = JObject [(u ''registrationNumber'', JStr (normalize_plate table plate))]\<rparr>"

text \<open>
  Every operation returns its result, or the exception it raises, together with the
  requests it sent upstream, in order.
\<close>

definition call_dvla :: "env \<Rightarrow> pystr \<Rightarrow> (error + json) \<times> http_request list" where
  "call_dvla e plate =
     (case DVLA_API_KEY e of
        None \<Rightarrow> (Inr JNull, [])
      | Some key \<Rightarrow>
          if key = [] then (Inr JNull, [])
          else
            (case http_client e of
               None \<Rightarrow> (Inl AssertionError, [])
             | Some post \<Rightarrow>
                 let request = dvla_request (case_table e) key plate in
                 (case post request of
                    Inl err \<Rightarrow> (Inl err, [request])
                  | Inr response \<Rightarrow>
                      if status_code response = 200 then (resp_json response, [request])
                      else if status_code response = 400 \<or> status_code response = 404
                      then (Inr JNull, [request])
                      else (Inl (HTTPException (status_code response)
                                   (u ''DVLA error: '' @ take 200 (resp_text response))),
                            [request]))))"

section \<open>The endpoints\<close>

definition root :: "unit \<Rightarrow> (error + json) \<times> http_request list" where
  "root _ =
     (Inr (JObject [(u ''service'', JStr (u ''UK VRM Lookup'')),
                    (u ''version'', JStr (u ''1.0.0'')),
                    (u ''docs'', JStr (u ''/docs''))]),
      [])"

definition health :: "unit \<Rightarrow> (error + json) \<times> http_request list" where
  "health _ = (Inr (JObject [(u ''ok'', JBool True)]), [])"

text \<open>
  Building the response reads the five keys in the order of the source; the first
  \<open>.get\<close> already raises when the value is not a dict.
\<close>

definition extract_response :: "env \<Rightarrow> json \<Rightarrow> error + LookupResponse" where
  "extract_response e vehicle =
     (case dict_get vehicle (u ''make'') of Inl err \<Rightarrow> Inl err | Inr mk \<Rightarrow>
      case dict_get vehicle (u ''model'') of Inl err \<Rightarrow> Inl err | Inr md \<Rightarrow>
      case dict_get vehicle (u ''colour'') of Inl err \<Rightarrow> Inl err | Inr co \<Rightarrow>
      case dict_get vehicle (u ''yearOfManufacture'') of Inl err \<Rightarrow> Inl err | Inr yr \<Rightarrow>
      case dict_get vehicle (u ''fuelType'') of Inl err \<Rightarrow> Inl err | Inr fu \<Rightarrow>
        new_LookupResponse (coerce_str e) (coerce_int e) mk md co yr fu)"

record LookupRequest =
  plate :: pystr

definition lookup :: "env \<Rightarrow> LookupRequest \<Rightarrow> (error + LookupResponse) \<times> http_request list" where
  "lookup e request =
     (let p = strip (plate request) in
      if p = [] then (Inl (HTTPException 400 (u ''plate required'')), [])
      else
        (case call_dvla e p of
           (Inl err, sent) \<Rightarrow> (Inl err, sent)
         | (Inr vehicle, sent) \<Rightarrow>
             if truthy vehicle then (extract_response e vehicle, sent)
             else (Inl (HTTPException 404 (u ''Vehicle not found'')), sent)))"

section \<open>Vehicle records\<close>

text \<open>
  The record of the upstream contract: a JSON object in which \<open>make\<close>, \<open>model\<close>,
  \<open>colour\<close> and \<open>fuelType\<close>, where present, are strings (or null) and
  \<open>yearOfManufacture\<close>, where present, is an integer (or null). Other fields are free.
  \<open>field\<close> reads a field by name, absent as null; \<open>record_response\<close> is the response
  the specification describes for a record: the five fields by name, a missing one absent.
\<close>

definition field :: "(pystr \<times> json) list \<Rightarrow> pystr \<Rightarrow> json" where
  "field kvs k = (case map_of kvs k of None \<Rightarrow> JNull | Some v \<Rightarrow> v)"

definition str_or_absent :: "json \<Rightarrow> bool" where
  "str_or_absent v = (case v of JNull \<Rightarrow> True | JStr _ \<Rightarrow> True | _ \<Rightarrow> False)"

definition int_or_absent :: "json \<Rightarrow> bool" where
  "int_or_absent v = (case v of JNull \<Rightarrow> True | JInt _ \<Rightarrow> True | _ \<Rightarrow> False)"

definition vehicle_record :: "(pystr \<times> json) list \<Rightarrow> bool" where
  "vehicle_record kvs \<longleftrightarrow>
     str_or_absent (field kvs (u ''make'')) \<and> str_or_absent (field kvs (u ''model'')) \<and>
     str_or_absent (field kvs (u ''colour'')) \<and>
     int_or_absent (field kvs (u ''yearOfManufacture'')) \<and>
     str_or_absent (field kvs (u ''fuelType''))"

definition as_str :: "json \<Rightarrow> pystr option" where
  "as_str v = (case v of JStr s \<Rightarrow> Some s | _ \<Rightarrow> None)"

definition as_int :: "json \<Rightarrow> int option" where
  "as_int v = (case v of JInt n \<Rightarrow> Some n | _ \<Rightarrow> None)"

definition record_response :: "(pystr \<times> json) list \<Rightarrow> LookupResponse" where
  "record_response kvs =
     \<lparr>make' = as_str (field kvs (u ''make'')),
      model = as_str (field kvs (u ''model'')),
      colour = as_str (field kvs (u ''colour'')),
      year_of_manufacture = as_int (field kvs (u ''yearOfManufacture'')),
      fuel_type = as_str (field kvs (u ''fuelType''))\<rparr>"

definition NOT_FOUND :: error where
  "NOT_FOUND = HTTPException 404 (u ''Vehicle not found'')"

section \<open>Stubs for examples\<close>

text \<open>
  A stubbed upstream answers every request with the same status, body text and parsed
  body. A stubbed environment has a client, a validation library that coerces nothing,
  and the Latin-1 case table below.
\<close>

definition stub_upstream ::
  "int \<Rightarrow> pystr \<Rightarrow> error + json \<Rightarrow> http_request \<Rightarrow> error + http_response" where
  "stub_upstream code body parsed request =
     Inr \<lparr>status_code = code, resp_text = body, resp_json = parsed\<rparr>"

definition no_coercion :: "json \<Rightarrow> 'a option" where
  "no_coercion v = None"

text \<open>
  A case table for examples: the Latin-1 letters of the Unicode case mapping
  (U+00E0-U+00FE without the division sign map 32 down, U+00DF maps to \<open>SS\<close>) and
  every other code point unchanged.
\<close>

definition latin1_case_table :: "nat \<Rightarrow> pystr" where
  "latin1_case_table c =
     (if c = 0xDF then [0x53, 0x53]
      else if 0xE0 \<le> c \<and> c \<le> 0xFE \<and> c \<noteq> 0xF7 then [c - 0x20]
      else [c])"

definition stub_env :: "pystr option \<Rightarrow> (http_request \<Rightarrow> error + http_response) \<Rightarrow> env" where
  "stub_env key post =
     \<lparr>DVLA_API_KEY = key, http_client = Some post, case_table = latin1_case_table,
      coerce_str = no_coercion, coerce_int = no_coercion\<rparr>"

definition ford_fiesta :: "(pystr \<times> json) list" where
  "ford_fiesta =
     [(u ''make'', JStr (u ''FORD'')), (u ''model'', JStr (u ''FIESTA'')),
      (u ''colour'', JStr (u ''BLUE'')), (u ''yearOfManufacture'', JInt 2015),
      (u ''fuelType'', JStr (u ''PETROL''))]"

section \<open>Properties of the plate normalizer\<close>

lemma class_matches_plate_class:
  "class_matches [CATEGORY_SPACE, LITERAL HYPHEN] c = removed_by_normalizer c"
  by (simp add: class_matches_def removed_by_normalizer_def)

lemma re_sub_delete: "re_sub items [] s = filter (\<lambda>c. \<not> class_matches items c) s"
  by (induction s) simp_all

lemma normalize_plate_filter:
  "normalize_plate ucd s = upper ucd (filter (\<lambda>c. \<not> removed_by_normalizer c) s)"
  by (simp add: normalize_plate_def re_sub_delete class_matches_plate_class)

lemma filter_dropWhile_space:
  "filter (\<lambda>c. \<not> removed_by_normalizer c) (dropWhile Py_UNICODE_ISSPACE s) =
   filter (\<lambda>c. \<not> removed_by_normalizer c) s"
  by (induction s) (simp_all add: removed_by_normalizer_def)

lemma filter_strip:
  "filter (\<lambda>c. \<not> removed_by_normalizer c) (strip s) =
   filter (\<lambda>c. \<not> removed_by_normalizer c) s"
proof -
  let ?keep = "\<lambda>c. \<not> removed_by_normalizer c"
  have "filter ?keep (strip s) =
      rev (filter ?keep (dropWhile Py_UNICODE_ISSPACE (rev (dropWhile Py_UNICODE_ISSPACE s))))"
    by (simp add: strip_def rev_filter)
  also have "\<dots> = rev (filter ?keep (rev (dropWhile Py_UNICODE_ISSPACE s)))"
    by (simp only: filter_dropWhile_space)
  also have "\<dots> = filter ?keep (dropWhile Py_UNICODE_ISSPACE s)"
    by (simp add: rev_filter)
  also have "\<dots> = filter ?keep s"
    by (simp only: filter_dropWhile_space)
  finally show ?thesis .
qed

lemma normalize_plate_strip_eq: "normalize_plate ucd (strip p) = normalize_plate ucd p"
  by (simp add: normalize_plate_filter filter_strip)

lemma upper_Nil: "upper ucd [] = []"
  by (simp add: upper_def)

lemma upper_Cons: "upper ucd (c # cs) = toupper_full ucd c @ upper ucd cs"
  by (simp add: upper_def)

lemma upper_append: "upper ucd (a @ b) = upper ucd a @ upper ucd b"
  by (simp add: upper_def)

lemma toupper_full_kept:
  assumes "case_table_stable ucd" and "\<not> removed_by_normalizer c"
  shows "\<forall>d \<in> set (toupper_full ucd c). \<not> removed_by_normalizer d"
proof (cases "c < 128")
  case True
  with assms(2) show ?thesis
    by (auto simp: toupper_full_def ascii_upper_def removed_by_normalizer_def
          Py_UNICODE_ISSPACE_def HYPHEN_def)
next
  case False
  with assms show ?thesis
    by (auto simp: toupper_full_def case_table_stable_def not_less)
qed

lemma toupper_full_fixed:
  assumes "case_table_stable ucd" and "\<not> removed_by_normalizer c"
  shows "upper ucd (toupper_full ucd c) = toupper_full ucd c"
proof (cases "c < 128")
  case True
  then show ?thesis
    by (auto simp: toupper_full_def ascii_upper_def upper_def)
next
  case False
  with assms show ?thesis
    by (simp add: toupper_full_def case_table_stable_def)
qed

lemma upper_kept:
  assumes "case_table_stable ucd" and "\<forall>c \<in> set t. \<not> removed_by_normalizer c"
  shows "filter (\<lambda>c. \<not> removed_by_normalizer c) (upper ucd t) = upper ucd t"
  using assms(2)
proof (induction t)
  case Nil
  show ?case by (simp add: upper_Nil)
next
  case (Cons c cs)
  then have "\<forall>d \<in> set (toupper_full ucd c). \<not> removed_by_normalizer d"
    using toupper_full_kept [OF assms(1), of c] by simp
  with Cons show ?case
    by (simp add: upper_Cons)
qed

lemma upper_fixed:
  assumes "case_table_stable ucd" and "\<forall>c \<in> set t. \<not> removed_by_normalizer c"
  shows "upper ucd (upper ucd t) = upper ucd t"
  using assms(2)
proof (induction t)
  case Nil
  show ?case by (simp add: upper_Nil)
next
  case (Cons c cs)
  then show ?case
    using toupper_full_fixed [OF assms(1), of c] by (simp add: upper_Cons upper_append)
qed

lemma normalize_plate_twice:
  assumes "case_table_stable ucd"
  shows "normalize_plate ucd (normalize_plate ucd s) = normalize_plate ucd s"
proof -
  let ?t = "filter (\<lambda>c. \<not> removed_by_normalizer c) s"
  have kept: "\<forall>c \<in> set ?t. \<not> removed_by_normalizer c" by simp
  show ?thesis
    unfolding normalize_plate_filter
    using upper_kept [OF assms kept] upper_fixed [OF assms kept] by simp
qed

lemmas normalize_eval =
  normalize_plate_def u_def upper_def toupper_full_def ascii_upper_def class_matches_def
  Py_UNICODE_ISSPACE_def HYPHEN_def

lemma normalize_example_mixed: "normalize_plate ucd (u ''ab 12-cde'') = u ''AB12CDE''"
  by (simp add: normalize_eval)

lemma normalize_example_normal: "normalize_plate ucd (u ''AB12CDE'') = u ''AB12CDE''"
  by (simp add: normalize_eval)

lemma normalize_example_hyphens: "normalize_plate ucd (u ''A-B 1-2'') = u ''AB12''"
  by (simp add: normalize_eval)

lemma latin1_case_table_stable: "case_table_stable latin1_case_table"
  unfolding case_table_stable_def
  by (auto simp: latin1_case_table_def upper_def toupper_full_def ascii_upper_def
        removed_by_normalizer_def Py_UNICODE_ISSPACE_def HYPHEN_def)

text \<open>
  C6. For every input string the normalizer returns the string obtained by removing every
  whitespace code point and every hyphen, and nothing else, and upper-casing what is left
  (\<open>spec_normalize\<close>). It is a total function; \<open>"ab 12-cde"\<close> gives \<open>"AB12CDE"\<close> and
  \<open>"A-B 1-2"\<close> gives \<open>"AB12"\<close>.
\<close>

theorem normalize_plate_refines_spec:
  "normalize_plate ucd s = spec_normalize ucd s \<and>
   normalize_plate ucd (u ''ab 12-cde'') = u ''AB12CDE'' \<and>
   normalize_plate ucd (u ''A-B 1-2'') = u ''AB12''"
proof -
  have "normalize_plate ucd s = spec_normalize ucd s"
    by (simp only: normalize_plate_filter spec_normalize_def)
  then show ?thesis
    by (simp only: normalize_example_mixed normalize_example_hyphens simp_thms)
qed

text \<open>
  C7. Normalization is idempotent: normalizing a normalized plate gives the same plate,
  for every string and every interpreter whose case table is stable; \<open>"AB12CDE"\<close> and
  \<open>"ab 12-cde"\<close> both normalize to \<open>"AB12CDE"\<close>.
\<close>

theorem normalize_plate_idempotent:
  assumes "case_table_stable ucd"
  shows "normalize_plate ucd (normalize_plate ucd s) = normalize_plate ucd s \<and>
         normalize_plate ucd (u ''AB12CDE'') = normalize_plate ucd (u ''ab 12-cde'') \<and>
         normalize_plate ucd (u ''ab 12-cde'') = u ''AB12CDE''"
  using assms
  by (simp add: normalize_plate_twice normalize_example_mixed normalize_example_normal)

theorem normalize_plate_idempotent_witness:
  "case_table_stable latin1_case_table \<and>
   normalize_plate latin1_case_table
     (normalize_plate latin1_case_table (u ''stra'' @ [0xDF, 0xE9] @ u '' 1-a'')) =
   normalize_plate latin1_case_table (u ''stra'' @ [0xDF, 0xE9] @ u '' 1-a'') \<and>
   normalize_plate latin1_case_table (u ''stra'' @ [0xDF, 0xE9] @ u '' 1-a'') =
   u ''STRASS'' @ [0xC9] @ u ''1A''"
proof -
  have st: "case_table_stable latin1_case_table"
    by (rule latin1_case_table_stable)
  have val: "normalize_plate latin1_case_table (u ''stra'' @ [0xDF, 0xE9] @ u '' 1-a'') =
      u ''STRASS'' @ [0xC9] @ u ''1A''"
    by (simp add: normalize_eval latin1_case_table_def)
  from normalize_plate_idempotent [OF st, of "u ''stra'' @ [0xDF, 0xE9] @ u '' 1-a''"] st val
  show ?thesis by simp
qed

text \<open>
  C9. Trimming never changes the normalized plate: for every string,
  \<open>normalize(trim(p)) = normalize(p)\<close>, so the request the handler sends upstream for the
  trimmed plate is the request for the plate as it was received.
\<close>

theorem normalize_plate_ignores_strip:
  "normalize_plate ucd (strip p) = normalize_plate ucd p \<and>
   dvla_request ucd key (strip p) = dvla_request ucd key p"
  by (simp add: dvla_request_def normalize_plate_strip_eq)

section \<open>Properties of the lookup\<close>

lemma call_dvla_posted:
  assumes "DVLA_API_KEY e = Some key" and "key \<noteq> []" and "http_client e = Some post"
    and "post (dvla_request (case_table e) key p) = Inr response"
  shows "call_dvla e p =
     (if status_code response = 200 then resp_json response
      else if status_code response = 400 \<or> status_code response = 404 then Inr JNull
      else Inl (HTTPException (status_code response)
                  (u ''DVLA error: '' @ take 200 (resp_text response))),
      [dvla_request (case_table e) key p])"
  using assms by (simp add: call_dvla_def Let_def)

lemma call_dvla_no_credential:
  assumes "DVLA_API_KEY e = None \<or> DVLA_API_KEY e = Some []"
  shows "call_dvla e p = (Inr JNull, [])"
  using assms by (auto simp: call_dvla_def)

lemma lookup_blank:
  assumes "strip (plate request) = []"
  shows "lookup e request = (Inl (HTTPException 400 (u ''plate required'')), [])"
  using assms by (simp add: lookup_def)

lemma lookup_falsy:
  assumes "strip (plate request) \<noteq> []" and "call_dvla e (strip (plate request)) = (Inr v, sent)"
    and "\<not> truthy v"
  shows "lookup e request = (Inl NOT_FOUND, sent)"
  using assms by (simp add: lookup_def NOT_FOUND_def)

lemma lookup_truthy:
  assumes "strip (plate request) \<noteq> []" and "call_dvla e (strip (plate request)) = (Inr v, sent)"
    and "truthy v"
  shows "lookup e request = (extract_response e v, sent)"
  using assms by (simp add: lookup_def)

lemma lookup_raised:
  assumes "strip (plate request) \<noteq> []" and "call_dvla e (strip (plate request)) = (Inl err, sent)"
  shows "lookup e request = (Inl err, sent)"
  using assms by (simp add: lookup_def)

lemma validate_optional_str_typed:
  "str_or_absent v \<Longrightarrow> validate_optional_str cs v = Some (as_str v)"
  by (cases v) (simp_all add: str_or_absent_def validate_optional_str_def as_str_def)

lemma validate_optional_int_typed:
  "int_or_absent v \<Longrightarrow> validate_optional_int ci v = Some (as_int v)"
  by (cases v) (simp_all add: int_or_absent_def validate_optional_int_def as_int_def)

lemma dict_get_field: "dict_get (JObject kvs) k = Inr (field kvs k)"
  by (simp add: field_def)

lemma extract_response_record:
  assumes "vehicle_record kvs"
  shows "extract_response e (JObject kvs) = Inr (record_response kvs)"
  using assms
  by (simp add: extract_response_def dict_get_field new_LookupResponse_def vehicle_record_def
        validate_optional_str_typed validate_optional_int_typed record_response_def
        del: dict_get.simps)

lemma strip_empty_iff: "strip s = [] \<longleftrightarrow> (\<forall>c \<in> set s. Py_UNICODE_ISSPACE c)"
proof -
  let ?t = "dropWhile Py_UNICODE_ISSPACE s"
  have "strip s = [] \<longleftrightarrow> (\<forall>c \<in> set ?t. Py_UNICODE_ISSPACE c)"
    by (simp only: strip_def rev_is_Nil_conv dropWhile_eq_Nil_conv set_rev)
  also have "\<dots> \<longleftrightarrow> (\<forall>c \<in> set s. Py_UNICODE_ISSPACE c)"
  proof
    assume all: "\<forall>c \<in> set ?t. Py_UNICODE_ISSPACE c"
    have "?t = []"
    proof (rule ccontr)
      assume ne: "?t \<noteq> []"
      then have "\<not> Py_UNICODE_ISSPACE (hd ?t)" by (rule hd_dropWhile)
      moreover from ne have "hd ?t \<in> set ?t" by (rule hd_in_set)
      ultimately show False using all by blast
    qed
    then show "\<forall>c \<in> set s. Py_UNICODE_ISSPACE c"
      by (simp only: dropWhile_eq_Nil_conv)
  next
    assume "\<forall>c \<in> set s. Py_UNICODE_ISSPACE c"
    then show "\<forall>c \<in> set ?t. Py_UNICODE_ISSPACE c"
      by (blast dest: set_dropWhileD)
  qed
  finally show ?thesis .
qed

lemmas stub_eval =
  stub_env_def stub_upstream_def strip_def u_def Py_UNICODE_ISSPACE_def

text \<open>
  C1, as amended. When the trimmed plate is not empty and the upstream call returns
  status 200 with a vehicle record that has at least one field, the lookup succeeds and
  returns the five fields read from the record by name (\<open>make\<close>, \<open>model\<close>, \<open>colour\<close>,
  \<open>yearOfManufacture\<close>, \<open>fuelType\<close>), a field missing from the record being absent;
  one request went upstream.
\<close>

theorem lookup_success:
  assumes "strip (plate request) \<noteq> []"
    and "DVLA_API_KEY e = Some key" and "key \<noteq> []" and "http_client e = Some post"
    and "post (dvla_request (case_table e) key (strip (plate request))) = Inr response"
    and "status_code response = 200" and "resp_json response = Inr (JObject kvs)"
    and "vehicle_record kvs" and "kvs \<noteq> []"
  shows "lookup e request =
     (Inr (record_response kvs), [dvla_request (case_table e) key (strip (plate request))])"
proof -
  have "call_dvla e (strip (plate request)) =
      (Inr (JObject kvs), [dvla_request (case_table e) key (strip (plate request))])"
    using assms(2-7) by (simp add: call_dvla_posted)
  moreover have "truthy (JObject kvs)"
    using assms(9) by simp
  ultimately show ?thesis
    using assms(1,8) by (simp add: lookup_truthy extract_response_record)
qed

theorem lookup_success_witness:
  "strip (plate \<lparr>plate = u ''AB12 CDE''\<rparr>) \<noteq> [] \<and> vehicle_record ford_fiesta \<and>
   ford_fiesta \<noteq> [] \<and>
   lookup (stub_env (Some (u ''secret'')) (stub_upstream 200 [] (Inr (JObject ford_fiesta))))
     \<lparr>plate = u ''AB12 CDE''\<rparr> =
   (Inr \<lparr>make' = Some (u ''FORD''), model = Some (u ''FIESTA''), colour = Some (u ''BLUE''),
         year_of_manufacture = Some 2015, fuel_type = Some (u ''PETROL'')\<rparr>,
    [dvla_request latin1_case_table (u ''secret'') (u ''AB12 CDE'')])"
proof -
  let ?e = "stub_env (Some (u ''secret'')) (stub_upstream 200 [] (Inr (JObject ford_fiesta)))"
  let ?r = "\<lparr>plate = u ''AB12 CDE''\<rparr>"
  have s: "strip (u ''AB12 CDE'') = u ''AB12 CDE''"
    by (simp add: strip_def u_def Py_UNICODE_ISSPACE_def)
  have une: "u ''AB12 CDE'' \<noteq> []"
    by (simp add: u_def)
  have ne: "strip (plate ?r) \<noteq> []"
    by (simp add: s une)
  have k: "u ''secret'' \<noteq> []" by (simp add: u_def)
  have v: "vehicle_record ford_fiesta"
    by (simp add: vehicle_record_def ford_fiesta_def field_def u_def str_or_absent_def
          int_or_absent_def)
  have n: "ford_fiesta \<noteq> []" by (simp add: ford_fiesta_def)
  have r: "record_response ford_fiesta =
      \<lparr>make' = Some (u ''FORD''), model = Some (u ''FIESTA''), colour = Some (u ''BLUE''),
       year_of_manufacture = Some 2015, fuel_type = Some (u ''PETROL'')\<rparr>"
    by (simp add: record_response_def ford_fiesta_def field_def u_def as_str_def as_int_def)
  have "lookup ?e ?r =
      (Inr (record_response ford_fiesta),
       [dvla_request (case_table ?e) (u ''secret'') (strip (plate ?r))])"
    using lookup_success [of ?r ?e "u ''secret''" "stub_upstream 200 [] (Inr (JObject ford_fiesta))"
        "\<lparr>status_code = 200, resp_text = [], resp_json = Inr (JObject ford_fiesta)\<rparr>"
        ford_fiesta] ne k v n
    by (simp add: stub_env_def stub_upstream_def)
  then show ?thesis
    using v n by (simp add: r s une stub_env_def)
qed

text \<open>
  C1 as the specification states it fails for the record without fields: it is a vehicle
  record, the upstream returns it with status 200, and the lookup does not succeed.
\<close>

theorem lookup_empty_record_counterexample:
  "strip (plate \<lparr>plate = u ''AB12 CDE''\<rparr>) \<noteq> [] \<and> vehicle_record [] \<and>
   lookup (stub_env (Some (u ''secret'')) (stub_upstream 200 (u ''{}'') (Inr (JObject []))))
     \<lparr>plate = u ''AB12 CDE''\<rparr> =
   (Inl (HTTPException 404 (u ''Vehicle not found'')),
    [dvla_request latin1_case_table (u ''secret'') (u ''AB12 CDE'')])"
  by (simp add: lookup_def call_dvla_def stub_eval vehicle_record_def field_def
        str_or_absent_def int_or_absent_def)

lemma strip_example: "strip (u ''AB12 CDE'') = u ''AB12 CDE''"
  by (simp add: strip_def u_def Py_UNICODE_ISSPACE_def)

lemma plate_example_nonempty: "u ''AB12 CDE'' \<noteq> []"
  by (simp add: u_def)

lemma key_example_nonempty: "u ''secret'' \<noteq> []"
  by (simp add: u_def)

text \<open>
  C2. The plate is empty after trimming exactly when it is the empty string or consists
  of whitespace only, and then the lookup fails with status 400 and the message
  \<open>plate required\<close>, and no request goes upstream.
\<close>

theorem lookup_blank_plate:
  "(strip (plate request) = [] \<longleftrightarrow> (\<forall>c \<in> set (plate request). Py_UNICODE_ISSPACE c)) \<and>
   (strip (plate request) = [] \<longrightarrow>
      lookup e request = (Inl (HTTPException 400 (u ''plate required'')), []))"
  by (simp add: strip_empty_iff lookup_blank)

theorem lookup_blank_plate_witness:
  "strip (plate \<lparr>plate = []\<rparr>) = [] \<and>
   lookup (stub_env (Some (u ''secret'')) (stub_upstream 200 [] (Inr (JObject ford_fiesta))))
     \<lparr>plate = []\<rparr> = (Inl (HTTPException 400 (u ''plate required'')), []) \<and>
   strip (plate \<lparr>plate = u ''   ''\<rparr>) = [] \<and>
   lookup (stub_env (Some (u ''secret'')) (stub_upstream 200 [] (Inr (JObject ford_fiesta))))
     \<lparr>plate = u ''   ''\<rparr> = (Inl (HTTPException 400 (u ''plate required'')), [])"
proof -
  let ?e = "stub_env (Some (u ''secret'')) (stub_upstream 200 [] (Inr (JObject ford_fiesta)))"
  have a: "strip (plate \<lparr>plate = []\<rparr>) = []"
    by (simp add: strip_def)
  have b: "strip (plate \<lparr>plate = u ''   ''\<rparr>) = []"
    by (simp add: strip_def u_def Py_UNICODE_ISSPACE_def)
  show ?thesis
    using a b lookup_blank_plate [of "\<lparr>plate = []\<rparr>" ?e]
      lookup_blank_plate [of "\<lparr>plate = u ''   ''\<rparr>" ?e]
    by blast
qed

text \<open>
  C3. When the upstream call returns status 400 or 404, the upstream client reports no
  record (\<open>None\<close>, not an exception) and the lookup fails with status 404 and the
  message \<open>Vehicle not found\<close>.
\<close>

theorem lookup_upstream_not_found:
  assumes "strip (plate request) \<noteq> []"
    and "DVLA_API_KEY e = Some key" and "key \<noteq> []" and "http_client e = Some post"
    and "post (dvla_request (case_table e) key (strip (plate request))) = Inr response"
    and "status_code response = 400 \<or> status_code response = 404"
  shows "call_dvla e (strip (plate request)) =
           (Inr JNull, [dvla_request (case_table e) key (strip (plate request))]) \<and>
         lookup e request =
           (Inl (HTTPException 404 (u ''Vehicle not found'')),
            [dvla_request (case_table e) key (strip (plate request))])"
proof -
  have c: "call_dvla e (strip (plate request)) =
      (Inr JNull, [dvla_request (case_table e) key (strip (plate request))])"
    using assms(2-6) by (auto simp: call_dvla_posted)
  have "\<not> truthy JNull" by simp
  with assms(1) c show ?thesis
    by (simp add: lookup_falsy NOT_FOUND_def)
qed

theorem lookup_upstream_not_found_witness:
  "strip (plate \<lparr>plate = u ''AB12 CDE''\<rparr>) \<noteq> [] \<and>
   call_dvla (stub_env (Some (u ''secret'')) (stub_upstream 404 (u ''no such vehicle'') (Inl JSONDecodeError)))
     (u ''AB12 CDE'') =
   (Inr JNull, [dvla_request latin1_case_table (u ''secret'') (u ''AB12 CDE'')]) \<and>
   lookup (stub_env (Some (u ''secret'')) (stub_upstream 404 (u ''no such vehicle'') (Inl JSONDecodeError)))
     \<lparr>plate = u ''AB12 CDE''\<rparr> =
   (Inl (HTTPException 404 (u ''Vehicle not found'')),
    [dvla_request latin1_case_table (u ''secret'') (u ''AB12 CDE'')])"
proof -
  let ?post = "stub_upstream 404 (u ''no such vehicle'') (Inl JSONDecodeError)"
  let ?e = "stub_env (Some (u ''secret'')) ?post"
  let ?r = "\<lparr>plate = u ''AB12 CDE''\<rparr>"
  have ne: "strip (plate ?r) \<noteq> []"
    by (simp add: strip_example plate_example_nonempty)
  show ?thesis
    using lookup_upstream_not_found [of ?r ?e "u ''secret''" ?post
        "\<lparr>status_code = 404, resp_text = u ''no such vehicle'', resp_json = Inl JSONDecodeError\<rparr>"]
      ne key_example_nonempty
    by (simp add: stub_env_def stub_upstream_def strip_example)
qed

text \<open>
  C4. When the upstream call returns a status other than 200, 400 and 404, the lookup
  fails with an error that carries that status and, after \<open>DVLA error: \<close>, the first
  200 code points of the upstream body (all of it when it is shorter).
\<close>

theorem lookup_upstream_failure:
  assumes "strip (plate request) \<noteq> []"
    and "DVLA_API_KEY e = Some key" and "key \<noteq> []" and "http_client e = Some post"
    and "post (dvla_request (case_table e) key (strip (plate request))) = Inr response"
    and "status_code response \<noteq> 200" and "status_code response \<noteq> 400"
    and "status_code response \<noteq> 404"
  shows "lookup e request =
           (Inl (HTTPException (status_code response)
                   (u ''DVLA error: '' @ take 200 (resp_text response))),
            [dvla_request (case_table e) key (strip (plate request))]) \<and>
         length (take 200 (resp_text response)) \<le> 200 \<and>
         take 200 (resp_text response) @ drop 200 (resp_text response) = resp_text response"
proof -
  have "call_dvla e (strip (plate request)) =
      (Inl (HTTPException (status_code response)
              (u ''DVLA error: '' @ take 200 (resp_text response))),
       [dvla_request (case_table e) key (strip (plate request))])"
    using assms(2-8) by (simp add: call_dvla_posted)
  with assms(1) show ?thesis
    by (simp add: lookup_raised)
qed

theorem lookup_upstream_failure_witness:
  "strip (plate \<lparr>plate = u ''AB12 CDE''\<rparr>) \<noteq> [] \<and>
   lookup (stub_env (Some (u ''secret'')) (stub_upstream 500 (replicate 250 0x78) (Inl JSONDecodeError)))
     \<lparr>plate = u ''AB12 CDE''\<rparr> =
   (Inl (HTTPException 500 (u ''DVLA error: '' @ replicate 200 0x78)),
    [dvla_request latin1_case_table (u ''secret'') (u ''AB12 CDE'')])"
proof -
  let ?post = "stub_upstream 500 (replicate 250 0x78) (Inl JSONDecodeError)"
  let ?e = "stub_env (Some (u ''secret'')) ?post"
  let ?r = "\<lparr>plate = u ''AB12 CDE''\<rparr>"
  have ne: "strip (plate ?r) \<noteq> []"
    by (simp add: strip_example plate_example_nonempty)
  show ?thesis
    using lookup_upstream_failure [of ?r ?e "u ''secret''" ?post
        "\<lparr>status_code = 500, resp_text = replicate 250 0x78, resp_json = Inl JSONDecodeError\<rparr>"]
      ne key_example_nonempty
    by (simp add: stub_env_def stub_upstream_def strip_example)
qed

text \<open>
  C5. Without a credential (unset or empty) and with a plate that is not empty after
  trimming, the upstream client answers "no record" and sends nothing, and the lookup
  fails with status 404 and \<open>Vehicle not found\<close>: the error a configured service
  raises when the upstream answers 400 or 404.
\<close>

theorem lookup_without_credential:
  assumes "strip (plate request) \<noteq> []"
    and "DVLA_API_KEY e = None \<or> DVLA_API_KEY e = Some []"
  shows "call_dvla e (strip (plate request)) = (Inr JNull, []) \<and>
         lookup e request = (Inl (HTTPException 404 (u ''Vehicle not found'')), []) \<and>
         (\<forall>e' key post response.
            DVLA_API_KEY e' = Some key \<and> key \<noteq> [] \<and> http_client e' = Some post \<and>
            post (dvla_request (case_table e') key (strip (plate request))) = Inr response \<and>
            (status_code response = 400 \<or> status_code response = 404)
            \<longrightarrow> fst (lookup e' request) = fst (lookup e request))"
proof -
  have c: "call_dvla e (strip (plate request)) = (Inr JNull, [])"
    using assms(2) by (rule call_dvla_no_credential)
  have "\<not> truthy JNull" by simp
  with assms(1) c have l: "lookup e request = (Inl NOT_FOUND, [])"
    by (rule lookup_falsy)
  have "fst (lookup e' request) = Inl NOT_FOUND"
    if "DVLA_API_KEY e' = Some key" "key \<noteq> []" "http_client e' = Some post"
      "post (dvla_request (case_table e') key (strip (plate request))) = Inr response"
      "status_code response = 400 \<or> status_code response = 404"
    for e' key post response
  proof -
    have "call_dvla e' (strip (plate request)) =
        (Inr JNull, [dvla_request (case_table e') key (strip (plate request))])"
      using that by (auto simp: call_dvla_posted)
    with assms(1) have "lookup e' request =
        (Inl NOT_FOUND, [dvla_request (case_table e') key (strip (plate request))])"
      by (simp add: lookup_falsy)
    then show ?thesis by simp
  qed
  with c l show ?thesis
    by (simp add: NOT_FOUND_def)
qed

theorem lookup_without_credential_witness:
  "strip (plate \<lparr>plate = u ''AB12 CDE''\<rparr>) \<noteq> [] \<and>
   lookup (stub_env None (stub_upstream 200 [] (Inr (JObject ford_fiesta)))) \<lparr>plate = u ''AB12 CDE''\<rparr> =
     (Inl (HTTPException 404 (u ''Vehicle not found'')), []) \<and>
   lookup (stub_env (Some []) (stub_upstream 200 [] (Inr (JObject ford_fiesta)))) \<lparr>plate = u ''AB12 CDE''\<rparr> =
     (Inl (HTTPException 404 (u ''Vehicle not found'')), []) \<and>
   fst (lookup (stub_env (Some (u ''secret'')) (stub_upstream 404 [] (Inl JSONDecodeError)))
          \<lparr>plate = u ''AB12 CDE''\<rparr>) =
   fst (lookup (stub_env None (stub_upstream 200 [] (Inr (JObject ford_fiesta))))
          \<lparr>plate = u ''AB12 CDE''\<rparr>)"
proof -
  let ?ok = "stub_upstream 200 [] (Inr (JObject ford_fiesta))"
  let ?nf = "stub_upstream 404 [] (Inl JSONDecodeError)"
  let ?r = "\<lparr>plate = u ''AB12 CDE''\<rparr>"
  have ne: "strip (plate ?r) \<noteq> []"
    by (simp add: strip_example plate_example_nonempty)
  have k1: "DVLA_API_KEY (stub_env None ?ok) = None \<or> DVLA_API_KEY (stub_env None ?ok) = Some []"
    by (simp add: stub_env_def)
  have k2: "DVLA_API_KEY (stub_env (Some []) ?ok) = None \<or>
      DVLA_API_KEY (stub_env (Some []) ?ok) = Some []"
    by (simp add: stub_env_def)
  note w1 = lookup_without_credential [OF ne k1]
  note w2 = lookup_without_credential [OF ne k2]
  have same: "fst (lookup (stub_env (Some (u ''secret'')) ?nf) ?r) =
      fst (lookup (stub_env None ?ok) ?r)"
  proof -
    from w1 have "\<forall>e' key post response.
        DVLA_API_KEY e' = Some key \<and> key \<noteq> [] \<and> http_client e' = Some post \<and>
        post (dvla_request (case_table e') key (strip (plate ?r))) = Inr response \<and>
        (status_code response = 400 \<or> status_code response = 404)
        \<longrightarrow> fst (lookup e' ?r) = fst (lookup (stub_env None ?ok) ?r)"
      by blast
    then have "DVLA_API_KEY (stub_env (Some (u ''secret'')) ?nf) = Some (u ''secret'') \<and>
        u ''secret'' \<noteq> [] \<and> http_client (stub_env (Some (u ''secret'')) ?nf) = Some ?nf \<and>
        ?nf (dvla_request (case_table (stub_env (Some (u ''secret'')) ?nf)) (u ''secret'') (strip (plate ?r)))
          = Inr \<lparr>status_code = 404, resp_text = [], resp_json = Inl JSONDecodeError\<rparr> \<and>
        (status_code \<lparr>status_code = 404, resp_text = [], resp_json = Inl JSONDecodeError\<rparr> = 400 \<or>
         status_code \<lparr>status_code = 404, resp_text = [], resp_json = Inl JSONDecodeError\<rparr> = 404)
        \<longrightarrow> fst (lookup (stub_env (Some (u ''secret'')) ?nf) ?r) = fst (lookup (stub_env None ?ok) ?r)"
      by blast
    then show ?thesis
      by (simp add: stub_env_def stub_upstream_def key_example_nonempty)
  qed
  from w1 w2 ne same show ?thesis by simp
qed

text \<open>
  C8. When the upstream call returns status 200 with an empty JSON object, the lookup
  does not return a response of five absent fields: the record is falsy, and the lookup
  fails with status 404 and \<open>Vehicle not found\<close>.
\<close>

theorem lookup_empty_record:
  assumes "strip (plate request) \<noteq> []"
    and "DVLA_API_KEY e = Some key" and "key \<noteq> []" and "http_client e = Some post"
    and "post (dvla_request (case_table e) key (strip (plate request))) = Inr response"
    and "status_code response = 200" and "resp_json response = Inr (JObject [])"
  shows "lookup e request =
           (Inl (HTTPException 404 (u ''Vehicle not found'')),
            [dvla_request (case_table e) key (strip (plate request))]) \<and>
         fst (lookup e request) \<noteq>
           Inr \<lparr>make' = None, model = None, colour = None, year_of_manufacture = None,
                 fuel_type = None\<rparr>"
proof -
  have c: "call_dvla e (strip (plate request)) =
      (Inr (JObject []), [dvla_request (case_table e) key (strip (plate request))])"
    using assms(2-7) by (simp add: call_dvla_posted)
  have "\<not> truthy (JObject [])" by simp
  with assms(1) c show ?thesis
    by (simp add: lookup_falsy NOT_FOUND_def)
qed

theorem lookup_empty_record_witness:
  "strip (plate \<lparr>plate = u ''AB12 CDE''\<rparr>) \<noteq> [] \<and>
   lookup (stub_env (Some (u ''secret'')) (stub_upstream 200 (u ''{}'') (Inr (JObject []))))
     \<lparr>plate = u ''AB12 CDE''\<rparr> =
   (Inl (HTTPException 404 (u ''Vehicle not found'')),
    [dvla_request latin1_case_table (u ''secret'') (u ''AB12 CDE'')])"
proof -
  let ?post = "stub_upstream 200 (u ''{}'') (Inr (JObject []))"
  let ?e = "stub_env (Some (u ''secret'')) ?post"
  let ?r = "\<lparr>plate = u ''AB12 CDE''\<rparr>"
  have ne: "strip (plate ?r) \<noteq> []"
    by (simp add: strip_example plate_example_nonempty)
  show ?thesis
    using lookup_empty_record [of ?r ?e "u ''secret''" ?post
        "\<lparr>status_code = 200, resp_text = u ''{}'', resp_json = Inr (JObject [])\<rparr>"]
      ne key_example_nonempty
    by (simp add: stub_env_def stub_upstream_def strip_example)
qed

text \<open>
  C10. The root and the health operation take no input, raise nothing and send nothing
  upstream; every call returns the same value: the metadata object for root and
  \<open>{ok: true}\<close> for health.
\<close>

theorem root_and_health_fixed:
  "root x =
     (Inr (JObject [(u ''service'', JStr (u ''UK VRM Lookup'')),
                    (u ''version'', JStr (u ''1.0.0'')), (u ''docs'', JStr (u ''/docs''))]), []) \<and>
   health y = (Inr (JObject [(u ''ok'', JBool True)]), []) \<and>
   root x = root x' \<and> health y = health y'"
  by (simp add: root_def health_def)

end
